theory Spec2Isabelle
  imports Main
begin

section \<open>The two Bisq gRPC example scripts\<close>

text \<open>
  The repository holds two scripts, \<^verbatim>\<open>get_bsq_swap_offers.py\<close> and \<^verbatim>\<open>send_bsq.py\<close>.
  Each one has a single function \<^verbatim>\<open>main\<close>: it creates an insecure gRPC channel to
  \<^verbatim>\<open>localhost:9998\<close>, builds a service stub on it, issues one unary call with
  \<^verbatim>\<open>with_call\<close> inside a \<^verbatim>\<open>try\<close> block, prints the reply, and on \<^verbatim>\<open>grpc.RpcError\<close> prints
  the error instead.

  The gRPC library, the generated protobuf classes and the daemon are outside the
  scripts. They are a parameter of the model (the record \<open>grpc_env\<close>); what the scripts
  do to the outside world is recorded as a list of effects, in program order.
\<close>

subsection \<open>Values of the gRPC library and of the generated message classes\<close>

text \<open>The status codes of \<^verbatim>\<open>grpc.StatusCode\<close> that an error can carry.\<close>

datatype status_code =
    CANCELLED | UNKNOWN | INVALID_ARGUMENT | DEADLINE_EXCEEDED | NOT_FOUND
  | ALREADY_EXISTS | PERMISSION_DENIED | RESOURCE_EXHAUSTED | FAILED_PRECONDITION
  | ABORTED | OUT_OF_RANGE | UNIMPLEMENTED | INTERNAL | UNAVAILABLE | DATA_LOSS
  | UNAUTHENTICATED

text \<open>A \<^verbatim>\<open>grpc.RpcError\<close> as a call raises it: the remote status code and its message.\<close>

record rpc_error =
  code :: status_code
  details :: string

text \<open>
  The Python exceptions that can reach \<^verbatim>\<open>main\<close>. The only one the scripts name is
  \<^verbatim>\<open>grpc.RpcError\<close>; \<open>ConnectionError\<close> is Python's builtin, \<open>OtherException\<close> stands for
  every other class, by name.
\<close>

datatype py_exception =
    RpcError rpc_error
  | ConnectionError
  | OtherException string

text \<open>A channel remembers its target; a stub is built on a channel.\<close>

datatype channel = Channel (target: string)

datatype stub = OffersStub channel | WalletsStub channel

datatype rpc_method = GetBsqSwapOffers | SendBsq

text \<open>The two request messages, with the fields the scripts set.\<close>

datatype request =
    GetBsqSwapOffersRequest (direction: string)
  | SendBsqRequest (address: string) (amount: string) (tx_fee_rate: string)

text \<open>
  The two reply messages. The scripts read one field of each and never look inside it,
  so the field's type is a parameter: \<open>'o\<close> for the offers, \<open>'t\<close> for the transaction info.
\<close>

datatype 'o get_bsq_swap_offers_reply = GetBsqSwapOffersReply (bsq_swap_offers: 'o)

datatype 't send_bsq_reply = SendBsqReply (tx_info: 't)

text \<open>The second component of what \<^verbatim>\<open>with_call\<close> returns; the scripts ignore it.\<close>

datatype grpc_call = GrpcCall

type_synonym metadata = "(string \<times> string) list"

subsection \<open>The environment\<close>

text \<open>
  What the library does when the scripts call it. Every function may raise
  (\<open>Inl\<close>) or return (\<open>Inr\<close>). \<open>str_bsq_swap_offers\<close>, \<open>str_tx_info\<close> and
  \<open>str_rpc_error\<close> are Python's \<^verbatim>\<open>str\<close> on the three kinds of object the scripts print.
\<close>

record ('o, 't) grpc_env =
  insecure_channel :: "string \<Rightarrow> py_exception + channel"
  get_bsq_swap_offers_with_call ::
    "stub \<Rightarrow> request \<Rightarrow> metadata \<Rightarrow> py_exception + ('o get_bsq_swap_offers_reply \<times> grpc_call)"
  send_bsq_with_call ::
    "stub \<Rightarrow> request \<Rightarrow> metadata \<Rightarrow> py_exception + ('t send_bsq_reply \<times> grpc_call)"
  str_bsq_swap_offers :: "'o \<Rightarrow> string"
  str_tx_info :: "'t \<Rightarrow> string"
  str_rpc_error :: "rpc_error \<Rightarrow> string"

subsection \<open>Effects\<close>

text \<open>
  The operations on the outside world: creating a channel to a target, one unary call
  through a stub (with its request and metadata), closing a channel, and writing text to
  standard output.
\<close>

datatype effect =
    InsecureChannel string
  | UnaryWithCall stub rpc_method request metadata
  | ChannelClose channel
  | Print string

text \<open>
  Python's \<^verbatim>\<open>print(a, b, ...)\<close> on strings: the arguments separated by one space, then a
  newline.
\<close>

fun py_join :: "string list \<Rightarrow> string" where
  "py_join [] = []"
| "py_join [x] = x"
| "py_join (x # y # ys) = x @ '' '' @ py_join (y # ys)"

definition py_print :: "string list \<Rightarrow> string" where
  "py_print args = py_join args @ [CHR 0x0A]"

subsection \<open>The two scripts\<close>

text \<open>
  The result of \<^verbatim>\<open>main\<close> is a pair: how it ended (\<open>Inr ()\<close> when it returned \<^verbatim>\<open>None\<close>,
  \<open>Inl e\<close> when the exception \<open>e\<close> left it) and the effects it had, in order.

  \<^verbatim>\<open>get_bsq_swap_offers.py\<close>, lines 8 to 18. Line 9 is outside the \<^verbatim>\<open>try\<close>: an exception
  there leaves \<^verbatim>\<open>main\<close>. Lines 13 to 16 are inside; \<^verbatim>\<open>except grpc.RpcError\<close> catches that
  class only.
\<close>

definition get_bsq_swap_offers_main ::
  "('o, 't) grpc_env \<Rightarrow> (py_exception + unit) \<times> effect list" where
  "get_bsq_swap_offers_main env =
     (case insecure_channel env ''localhost:9998'' of
        Inl exn \<Rightarrow> (Inl exn, [InsecureChannel ''localhost:9998''])
      | Inr grpc_channel \<Rightarrow>
          (let grpc_service_stub = OffersStub grpc_channel;
               api_password = ''xyz'';
               req = GetBsqSwapOffersRequest ''SELL'';
               md = [(''password'', api_password)];
               done = [InsecureChannel ''localhost:9998'',
                       UnaryWithCall grpc_service_stub GetBsqSwapOffers req md]
           in case get_bsq_swap_offers_with_call env grpc_service_stub req md of
                Inr response \<Rightarrow>
                  (Inr (),
                   done @ [Print (py_print
                     [''Response: '' @ str_bsq_swap_offers env (bsq_swap_offers (fst response))])])
              | Inl (RpcError rpc_error) \<Rightarrow>
                  (Inr (),
                   done @ [Print (py_print
                     [''gRPC API Exception: %s'', str_rpc_error env rpc_error])])
              | Inl exn \<Rightarrow> (Inl exn, done)))"

text \<open>\<^verbatim>\<open>send_bsq.py\<close>, lines 8 to 21: the same shape, on the wallets service.\<close>

definition send_bsq_main ::
  "('o, 't) grpc_env \<Rightarrow> (py_exception + unit) \<times> effect list" where
  "send_bsq_main env =
     (case insecure_channel env ''localhost:9998'' of
        Inl exn \<Rightarrow> (Inl exn, [InsecureChannel ''localhost:9998''])
      | Inr grpc_channel \<Rightarrow>
          (let grpc_service_stub = WalletsStub grpc_channel;
               api_password = ''xyz'';
               req = SendBsqRequest ''Bbcrt1q9elrmtxtzpwt25zq2pmeeu6qk8029w404ad0xn''
                       ''10.00'' ''10'';
               md = [(''password'', api_password)];
               done = [InsecureChannel ''localhost:9998'',
                       UnaryWithCall grpc_service_stub SendBsq req md]
           in case send_bsq_with_call env grpc_service_stub req md of
                Inr response \<Rightarrow>
                  (Inr (),
                   done @ [Print (py_print
                     [''Response: '' @ str_tx_info env (tx_info (fst response))])])
              | Inl (RpcError rpc_error) \<Rightarrow>
                  (Inr (),
                   done @ [Print (py_print
                     [''gRPC API Exception: %s'', str_rpc_error env rpc_error])])
              | Inl exn \<Rightarrow> (Inl exn, done)))"

subsection \<open>Reading a list of effects\<close>

text \<open>The remote calls issued, the targets of the channels created, the channels closed,
  the texts printed one by one, and all the text written to standard output.\<close>

fun remote_calls :: "effect list \<Rightarrow> (stub \<times> rpc_method \<times> request \<times> metadata) list" where
  "remote_calls [] = []"
| "remote_calls (UnaryWithCall s m r md # es) = (s, m, r, md) # remote_calls es"
| "remote_calls (_ # es) = remote_calls es"

fun channels_created :: "effect list \<Rightarrow> string list" where
  "channels_created [] = []"
| "channels_created (InsecureChannel t # es) = t # channels_created es"
| "channels_created (_ # es) = channels_created es"

fun channels_closed :: "effect list \<Rightarrow> channel list" where
  "channels_closed [] = []"
| "channels_closed (ChannelClose c # es) = c # channels_closed es"
| "channels_closed (_ # es) = channels_closed es"

fun printed :: "effect list \<Rightarrow> string list" where
  "printed [] = []"
| "printed (Print s # es) = s # printed es"
| "printed (_ # es) = printed es"

fun stdout :: "effect list \<Rightarrow> string" where
  "stdout [] = []"
| "stdout (Print s # es) = s @ stdout es"
| "stdout (_ # es) = stdout es"

subsection \<open>Four concrete environments\<close>

text \<open>
  A daemon that answers: the channel is created, both calls return a reply whose payload
  is a piece of text, and \<^verbatim>\<open>str\<close> of a payload is that text.
\<close>

definition answering_env :: "(string, string) grpc_env" where
  "answering_env =
     \<lparr> insecure_channel = (\<lambda>t. Inr (Channel t)),
       get_bsq_swap_offers_with_call = (\<lambda>s r md. Inr (GetBsqSwapOffersReply ''[]'', GrpcCall)),
       send_bsq_with_call = (\<lambda>s r md. Inr (SendBsqReply ''tx'', GrpcCall)),
       str_bsq_swap_offers = (\<lambda>p. p),
       str_tx_info = (\<lambda>p. p),
       str_rpc_error = (\<lambda>e. details e) \<rparr>"

text \<open>
  No daemon listens on the target. A gRPC channel is created without contacting the
  target, so \<open>insecure_channel\<close> returns; the failure arrives when the call is made, as an
  \<open>RpcError\<close> with status \<open>UNAVAILABLE\<close>.
\<close>

definition daemon_down_env :: "(string, string) grpc_env" where
  "daemon_down_env =
     \<lparr> insecure_channel = (\<lambda>t. Inr (Channel t)),
       get_bsq_swap_offers_with_call =
         (\<lambda>s r md. Inl (RpcError \<lparr>code = UNAVAILABLE, details = ''failed to connect to all addresses''\<rparr>)),
       send_bsq_with_call =
         (\<lambda>s r md. Inl (RpcError \<lparr>code = UNAVAILABLE, details = ''failed to connect to all addresses''\<rparr>)),
       str_bsq_swap_offers = (\<lambda>p. p),
       str_tx_info = (\<lambda>p. p),
       str_rpc_error = (\<lambda>e. details e) \<rparr>"

text \<open>An environment in which creating the channel itself raises \<open>ConnectionError\<close>.\<close>

definition refusing_env :: "(string, string) grpc_env" where
  "refusing_env =
     \<lparr> insecure_channel = (\<lambda>t. Inl ConnectionError),
       get_bsq_swap_offers_with_call = (\<lambda>s r md. Inr (GetBsqSwapOffersReply ''[]'', GrpcCall)),
       send_bsq_with_call = (\<lambda>s r md. Inr (SendBsqReply ''tx'', GrpcCall)),
       str_bsq_swap_offers = (\<lambda>p. p),
       str_tx_info = (\<lambda>p. p),
       str_rpc_error = (\<lambda>e. details e) \<rparr>"

text \<open>
  An environment in which the remote call raises an exception of another class than
  \<open>RpcError\<close>.
\<close>

definition value_error_env :: "(string, string) grpc_env" where
  "value_error_env =
     \<lparr> insecure_channel = (\<lambda>t. Inr (Channel t)),
       get_bsq_swap_offers_with_call = (\<lambda>s r md. Inl (OtherException ''ValueError'')),
       send_bsq_with_call = (\<lambda>s r md. Inl (OtherException ''ValueError'')),
       str_bsq_swap_offers = (\<lambda>p. p),
       str_tx_info = (\<lambda>p. p),
       str_rpc_error = (\<lambda>e. details e) \<rparr>"

section \<open>Properties\<close>

subsection \<open>Evaluating the scripts on each path\<close>

lemma offers_channel_raises:
  "insecure_channel env ''localhost:9998'' = Inl exn \<Longrightarrow>
   get_bsq_swap_offers_main env = (Inl exn, [InsecureChannel ''localhost:9998''])"
  by (simp add: get_bsq_swap_offers_main_def)

lemma send_channel_raises:
  "insecure_channel env ''localhost:9998'' = Inl exn \<Longrightarrow>
   send_bsq_main env = (Inl exn, [InsecureChannel ''localhost:9998''])"
  by (simp add: send_bsq_main_def)

lemma offers_returns:
  "insecure_channel env ''localhost:9998'' = Inr ch \<Longrightarrow>
   get_bsq_swap_offers_with_call env (OffersStub ch) (GetBsqSwapOffersRequest ''SELL'')
     [(''password'', ''xyz'')] = Inr (reply, c) \<Longrightarrow>
   get_bsq_swap_offers_main env =
     (Inr (),
      [InsecureChannel ''localhost:9998'',
       UnaryWithCall (OffersStub ch) GetBsqSwapOffers (GetBsqSwapOffersRequest ''SELL'')
         [(''password'', ''xyz'')],
       Print (py_print [''Response: '' @ str_bsq_swap_offers env (bsq_swap_offers reply)])])"
  by (simp add: get_bsq_swap_offers_main_def)

lemma offers_rpc_error:
  "insecure_channel env ''localhost:9998'' = Inr ch \<Longrightarrow>
   get_bsq_swap_offers_with_call env (OffersStub ch) (GetBsqSwapOffersRequest ''SELL'')
     [(''password'', ''xyz'')] = Inl (RpcError e) \<Longrightarrow>
   get_bsq_swap_offers_main env =
     (Inr (),
      [InsecureChannel ''localhost:9998'',
       UnaryWithCall (OffersStub ch) GetBsqSwapOffers (GetBsqSwapOffersRequest ''SELL'')
         [(''password'', ''xyz'')],
       Print (py_print [''gRPC API Exception: %s'', str_rpc_error env e])])"
  by (simp add: get_bsq_swap_offers_main_def)

lemma offers_other_exception:
  "insecure_channel env ''localhost:9998'' = Inr ch \<Longrightarrow>
   get_bsq_swap_offers_with_call env (OffersStub ch) (GetBsqSwapOffersRequest ''SELL'')
     [(''password'', ''xyz'')] = Inl exn \<Longrightarrow>
   (\<And>e. exn \<noteq> RpcError e) \<Longrightarrow>
   get_bsq_swap_offers_main env =
     (Inl exn,
      [InsecureChannel ''localhost:9998'',
       UnaryWithCall (OffersStub ch) GetBsqSwapOffers (GetBsqSwapOffersRequest ''SELL'')
         [(''password'', ''xyz'')]])"
  by (cases exn) (auto simp add: get_bsq_swap_offers_main_def)

lemma send_returns:
  "insecure_channel env ''localhost:9998'' = Inr ch \<Longrightarrow>
   send_bsq_with_call env (WalletsStub ch)
     (SendBsqRequest ''Bbcrt1q9elrmtxtzpwt25zq2pmeeu6qk8029w404ad0xn'' ''10.00'' ''10'')
     [(''password'', ''xyz'')] = Inr (reply, c) \<Longrightarrow>
   send_bsq_main env =
     (Inr (),
      [InsecureChannel ''localhost:9998'',
       UnaryWithCall (WalletsStub ch) SendBsq
         (SendBsqRequest ''Bbcrt1q9elrmtxtzpwt25zq2pmeeu6qk8029w404ad0xn'' ''10.00'' ''10'')
         [(''password'', ''xyz'')],
       Print (py_print [''Response: '' @ str_tx_info env (tx_info reply)])])"
  by (simp add: send_bsq_main_def)

lemma send_rpc_error:
  "insecure_channel env ''localhost:9998'' = Inr ch \<Longrightarrow>
   send_bsq_with_call env (WalletsStub ch)
     (SendBsqRequest ''Bbcrt1q9elrmtxtzpwt25zq2pmeeu6qk8029w404ad0xn'' ''10.00'' ''10'')
     [(''password'', ''xyz'')] = Inl (RpcError e) \<Longrightarrow>
   send_bsq_main env =
     (Inr (),
      [InsecureChannel ''localhost:9998'',
       UnaryWithCall (WalletsStub ch) SendBsq
         (SendBsqRequest ''Bbcrt1q9elrmtxtzpwt25zq2pmeeu6qk8029w404ad0xn'' ''10.00'' ''10'')
         [(''password'', ''xyz'')],
       Print (py_print [''gRPC API Exception: %s'', str_rpc_error env e])])"
  by (simp add: send_bsq_main_def)

lemma send_other_exception:
  "insecure_channel env ''localhost:9998'' = Inr ch \<Longrightarrow>
   send_bsq_with_call env (WalletsStub ch)
     (SendBsqRequest ''Bbcrt1q9elrmtxtzpwt25zq2pmeeu6qk8029w404ad0xn'' ''10.00'' ''10'')
     [(''password'', ''xyz'')] = Inl exn \<Longrightarrow>
   (\<And>e. exn \<noteq> RpcError e) \<Longrightarrow>
   send_bsq_main env =
     (Inl exn,
      [InsecureChannel ''localhost:9998'',
       UnaryWithCall (WalletsStub ch) SendBsq
         (SendBsqRequest ''Bbcrt1q9elrmtxtzpwt25zq2pmeeu6qk8029w404ad0xn'' ''10.00'' ''10'')
         [(''password'', ''xyz'')]])"
  by (cases exn) (auto simp add: send_bsq_main_def)

text \<open>
  Whatever the environment does, the effects of a run are one of four lists: the channel
  creation alone, or the channel creation and the call, followed by nothing or by one
  line of output.
\<close>

lemma offers_effects_shape:
  "snd (get_bsq_swap_offers_main env) = [InsecureChannel ''localhost:9998''] \<or>
   (\<exists>ch tail. snd (get_bsq_swap_offers_main env) =
      InsecureChannel ''localhost:9998'' #
      UnaryWithCall (OffersStub ch) GetBsqSwapOffers (GetBsqSwapOffersRequest ''SELL'')
        [(''password'', ''xyz'')] # tail \<and>
      (tail = [] \<or> (\<exists>x. tail = [Print (py_print [''Response: '' @ x])]) \<or>
       (\<exists>x. tail = [Print (py_print [''gRPC API Exception: %s'', x])])))"
  by (auto simp add: get_bsq_swap_offers_main_def Let_def split: sum.splits py_exception.splits)

lemma send_effects_shape:
  "snd (send_bsq_main env) = [InsecureChannel ''localhost:9998''] \<or>
   (\<exists>ch tail. snd (send_bsq_main env) =
      InsecureChannel ''localhost:9998'' #
      UnaryWithCall (WalletsStub ch) SendBsq
        (SendBsqRequest ''Bbcrt1q9elrmtxtzpwt25zq2pmeeu6qk8029w404ad0xn'' ''10.00'' ''10'')
        [(''password'', ''xyz'')] # tail \<and>
      (tail = [] \<or> (\<exists>x. tail = [Print (py_print [''Response: '' @ x])]) \<or>
       (\<exists>x. tail = [Print (py_print [''gRPC API Exception: %s'', x])])))"
  by (auto simp add: send_bsq_main_def Let_def split: sum.splits py_exception.splits)

subsection \<open>The requests the scripts send\<close>

text \<open>
  The statement that \<^verbatim>\<open>send_bsq.py\<close> returns or outputs the transaction-info payload
  unmodified fails. With a daemon whose payload is the text \<^verbatim>\<open>tx\<close> and a \<^verbatim>\<open>str\<close> that
  renders a payload as itself, the one text printed is \<^verbatim>\<open>Response: tx\<close> with a newline,
  which is not the payload, and \<^verbatim>\<open>main\<close> returns \<^verbatim>\<open>None\<close>, not the payload.
\<close>

theorem send_bsq_prints_labelled_text_counterexample:
  "send_bsq_with_call answering_env (WalletsStub (Channel ''localhost:9998''))
     (SendBsqRequest ''Bbcrt1q9elrmtxtzpwt25zq2pmeeu6qk8029w404ad0xn'' ''10.00'' ''10'')
     [(''password'', ''xyz'')] = Inr (SendBsqReply ''tx'', GrpcCall) \<and>
   str_tx_info answering_env (tx_info (SendBsqReply ''tx'')) = ''tx'' \<and>
   printed (snd (send_bsq_main answering_env)) = [''Response: tx'' @ [CHR 0x0A]] \<and>
   printed (snd (send_bsq_main answering_env)) \<noteq> [''tx''] \<and>
   fst (send_bsq_main answering_env) = Inr ()"
  by (simp add: answering_env_def send_bsq_main_def py_print_def)

text \<open>
  C1, as the code has it. \<^verbatim>\<open>send_bsq.py\<close> issues one \<open>SendBsq\<close> call whose request has
  the address \<^verbatim>\<open>Bbcrt1q9elrmtxtzpwt25zq2pmeeu6qk8029w404ad0xn\<close>, the amount \<^verbatim>\<open>10.00\<close> and the
  fee rate \<^verbatim>\<open>10\<close>, as written in the script; when the call returns a reply, \<^verbatim>\<open>main\<close>
  returns \<^verbatim>\<open>None\<close> and writes to standard output the label \<^verbatim>\<open>Response: \<close>, then \<^verbatim>\<open>str\<close> of
  the reply's \<open>tx_info\<close> exactly as the server returned it, then a newline.
\<close>

theorem send_bsq_transmits_fields_and_prints_tx_info:
  assumes "insecure_channel env ''localhost:9998'' = Inr ch"
  shows "map (\<lambda>(s, m, r, md). (m, r)) (remote_calls (snd (send_bsq_main env))) =
           [(SendBsq,
             SendBsqRequest ''Bbcrt1q9elrmtxtzpwt25zq2pmeeu6qk8029w404ad0xn'' ''10.00'' ''10'')] \<and>
         (\<forall>reply c.
            send_bsq_with_call env (WalletsStub ch)
              (SendBsqRequest ''Bbcrt1q9elrmtxtzpwt25zq2pmeeu6qk8029w404ad0xn'' ''10.00'' ''10'')
              [(''password'', ''xyz'')] = Inr (reply, c) \<longrightarrow>
            fst (send_bsq_main env) = Inr () \<and>
            stdout (snd (send_bsq_main env)) =
              ''Response: '' @ str_tx_info env (tx_info reply) @ [CHR 0x0A])"
proof (intro conjI allI impI)
  show "map (\<lambda>(s, m, r, md). (m, r)) (remote_calls (snd (send_bsq_main env))) =
           [(SendBsq,
             SendBsqRequest ''Bbcrt1q9elrmtxtzpwt25zq2pmeeu6qk8029w404ad0xn'' ''10.00'' ''10'')]"
    using assms
    by (simp add: send_bsq_main_def Let_def split: sum.splits py_exception.splits)
next
  fix reply c
  assume "send_bsq_with_call env (WalletsStub ch)
              (SendBsqRequest ''Bbcrt1q9elrmtxtzpwt25zq2pmeeu6qk8029w404ad0xn'' ''10.00'' ''10'')
              [(''password'', ''xyz'')] = Inr (reply, c)"
  from send_returns [OF assms this]
  show "fst (send_bsq_main env) = Inr ()"
    and "stdout (snd (send_bsq_main env)) =
              ''Response: '' @ str_tx_info env (tx_info reply) @ [CHR 0x0A]"
    by (simp_all add: py_print_def)
qed

theorem send_bsq_transmits_fields_and_prints_tx_info_witness:
  "insecure_channel answering_env ''localhost:9998'' = Inr (Channel ''localhost:9998'') \<and>
   map (\<lambda>(s, m, r, md). (m, r)) (remote_calls (snd (send_bsq_main answering_env))) =
     [(SendBsq,
       SendBsqRequest ''Bbcrt1q9elrmtxtzpwt25zq2pmeeu6qk8029w404ad0xn'' ''10.00'' ''10'')] \<and>
   send_bsq_with_call answering_env (WalletsStub (Channel ''localhost:9998''))
     (SendBsqRequest ''Bbcrt1q9elrmtxtzpwt25zq2pmeeu6qk8029w404ad0xn'' ''10.00'' ''10'')
     [(''password'', ''xyz'')] = Inr (SendBsqReply ''tx'', GrpcCall) \<and>
   fst (send_bsq_main answering_env) = Inr () \<and>
   stdout (snd (send_bsq_main answering_env)) = ''Response: tx'' @ [CHR 0x0A]"
proof -
  have h: "insecure_channel answering_env ''localhost:9998'' = Inr (Channel ''localhost:9998'')"
    by (simp add: answering_env_def)
  have c: "send_bsq_with_call answering_env (WalletsStub (Channel ''localhost:9998''))
     (SendBsqRequest ''Bbcrt1q9elrmtxtzpwt25zq2pmeeu6qk8029w404ad0xn'' ''10.00'' ''10'')
     [(''password'', ''xyz'')] = Inr (SendBsqReply ''tx'', GrpcCall)"
    by (simp add: answering_env_def)
  have s: "str_tx_info answering_env (tx_info (SendBsqReply ''tx'')) = ''tx''"
    by (simp add: answering_env_def)
  from send_bsq_transmits_fields_and_prints_tx_info [OF h] h c s
  show ?thesis by simp
qed

text \<open>
  C2. \<^verbatim>\<open>get_bsq_swap_offers.py\<close> issues one \<open>GetBsqSwapOffers\<close> call whose request is
  \<open>GetBsqSwapOffersRequest\<close> with direction \<^verbatim>\<open>SELL\<close>: the value written in the script
  reaches the remote call unchanged.
\<close>

theorem get_bsq_swap_offers_direction_unchanged:
  assumes "insecure_channel env ''localhost:9998'' = Inr ch"
  shows "map (\<lambda>(s, m, r, md). (m, r)) (remote_calls (snd (get_bsq_swap_offers_main env))) =
           [(GetBsqSwapOffers, GetBsqSwapOffersRequest ''SELL'')] \<and>
         map (\<lambda>(s, m, r, md). direction r) (remote_calls (snd (get_bsq_swap_offers_main env))) =
           [''SELL'']"
  using assms
  by (simp add: get_bsq_swap_offers_main_def Let_def split: sum.splits py_exception.splits)

theorem get_bsq_swap_offers_direction_unchanged_witness:
  "insecure_channel daemon_down_env ''localhost:9998'' = Inr (Channel ''localhost:9998'') \<and>
   map (\<lambda>(s, m, r, md). (m, r)) (remote_calls (snd (get_bsq_swap_offers_main daemon_down_env))) =
     [(GetBsqSwapOffers, GetBsqSwapOffersRequest ''SELL'')] \<and>
   map (\<lambda>(s, m, r, md). direction r)
     (remote_calls (snd (get_bsq_swap_offers_main daemon_down_env))) = [''SELL'']"
proof -
  have h: "insecure_channel daemon_down_env ''localhost:9998'' = Inr (Channel ''localhost:9998'')"
    by (simp add: daemon_down_env_def)
  from get_bsq_swap_offers_direction_unchanged [OF h] h show ?thesis by simp
qed

subsection \<open>The error path\<close>

text \<open>
  C3. On a channel that was created, when the remote call ends with an error status and
  so raises \<open>RpcError\<close> with a status code \<open>c\<close> and a message \<open>m\<close>, each script reports
  exactly one error: the only text it prints is the line built from that very error
  (\<^verbatim>\<open>gRPC API Exception: %s\<close>, a space, \<^verbatim>\<open>str\<close> of the error), and no \<^verbatim>\<open>Response: \<close> line
  is printed, so no reply payload is produced.
\<close>

theorem rpc_error_reported_once_without_reply:
  assumes "insecure_channel env ''localhost:9998'' = Inr ch"
  shows "(get_bsq_swap_offers_with_call env (OffersStub ch) (GetBsqSwapOffersRequest ''SELL'')
            [(''password'', ''xyz'')] = Inl (RpcError \<lparr>code = c, details = m\<rparr>) \<longrightarrow>
          printed (snd (get_bsq_swap_offers_main env)) =
            [py_print [''gRPC API Exception: %s'', str_rpc_error env \<lparr>code = c, details = m\<rparr>]] \<and>
          (\<forall>x. Print (py_print [''Response: '' @ x]) \<notin> set (snd (get_bsq_swap_offers_main env)))) \<and>
         (send_bsq_with_call env (WalletsStub ch)
            (SendBsqRequest ''Bbcrt1q9elrmtxtzpwt25zq2pmeeu6qk8029w404ad0xn'' ''10.00'' ''10'')
            [(''password'', ''xyz'')] = Inl (RpcError \<lparr>code = c, details = m\<rparr>) \<longrightarrow>
          printed (snd (send_bsq_main env)) =
            [py_print [''gRPC API Exception: %s'', str_rpc_error env \<lparr>code = c, details = m\<rparr>]] \<and>
          (\<forall>x. Print (py_print [''Response: '' @ x]) \<notin> set (snd (send_bsq_main env))))"
proof (intro conjI impI)
  assume a: "get_bsq_swap_offers_with_call env (OffersStub ch) (GetBsqSwapOffersRequest ''SELL'')
            [(''password'', ''xyz'')] = Inl (RpcError \<lparr>code = c, details = m\<rparr>)"
  show "printed (snd (get_bsq_swap_offers_main env)) =
            [py_print [''gRPC API Exception: %s'', str_rpc_error env \<lparr>code = c, details = m\<rparr>]]"
    by (simp add: offers_rpc_error [OF assms a])
  show "\<forall>x. Print (py_print [''Response: '' @ x]) \<notin> set (snd (get_bsq_swap_offers_main env))"
    by (simp add: offers_rpc_error [OF assms a] py_print_def)
next
  assume a: "send_bsq_with_call env (WalletsStub ch)
            (SendBsqRequest ''Bbcrt1q9elrmtxtzpwt25zq2pmeeu6qk8029w404ad0xn'' ''10.00'' ''10'')
            [(''password'', ''xyz'')] = Inl (RpcError \<lparr>code = c, details = m\<rparr>)"
  show "printed (snd (send_bsq_main env)) =
            [py_print [''gRPC API Exception: %s'', str_rpc_error env \<lparr>code = c, details = m\<rparr>]]"
    by (simp add: send_rpc_error [OF assms a])
  show "\<forall>x. Print (py_print [''Response: '' @ x]) \<notin> set (snd (send_bsq_main env))"
    by (simp add: send_rpc_error [OF assms a] py_print_def)
qed

theorem rpc_error_reported_once_without_reply_witness:
  "insecure_channel daemon_down_env ''localhost:9998'' = Inr (Channel ''localhost:9998'') \<and>
   get_bsq_swap_offers_with_call daemon_down_env (OffersStub (Channel ''localhost:9998''))
     (GetBsqSwapOffersRequest ''SELL'') [(''password'', ''xyz'')] =
     Inl (RpcError \<lparr>code = UNAVAILABLE, details = ''failed to connect to all addresses''\<rparr>) \<and>
   send_bsq_with_call daemon_down_env (WalletsStub (Channel ''localhost:9998''))
     (SendBsqRequest ''Bbcrt1q9elrmtxtzpwt25zq2pmeeu6qk8029w404ad0xn'' ''10.00'' ''10'')
     [(''password'', ''xyz'')] =
     Inl (RpcError \<lparr>code = UNAVAILABLE, details = ''failed to connect to all addresses''\<rparr>) \<and>
   printed (snd (get_bsq_swap_offers_main daemon_down_env)) =
     [''gRPC API Exception: %s failed to connect to all addresses'' @ [CHR 0x0A]] \<and>
   printed (snd (send_bsq_main daemon_down_env)) =
     [''gRPC API Exception: %s failed to connect to all addresses'' @ [CHR 0x0A]]"
proof -
  have h: "insecure_channel daemon_down_env ''localhost:9998'' = Inr (Channel ''localhost:9998'')"
    by (simp add: daemon_down_env_def)
  have a: "get_bsq_swap_offers_with_call daemon_down_env (OffersStub (Channel ''localhost:9998''))
     (GetBsqSwapOffersRequest ''SELL'') [(''password'', ''xyz'')] =
     Inl (RpcError \<lparr>code = UNAVAILABLE, details = ''failed to connect to all addresses''\<rparr>)"
    by (simp add: daemon_down_env_def)
  have b: "send_bsq_with_call daemon_down_env (WalletsStub (Channel ''localhost:9998''))
     (SendBsqRequest ''Bbcrt1q9elrmtxtzpwt25zq2pmeeu6qk8029w404ad0xn'' ''10.00'' ''10'')
     [(''password'', ''xyz'')] =
     Inl (RpcError \<lparr>code = UNAVAILABLE, details = ''failed to connect to all addresses''\<rparr>)"
    by (simp add: daemon_down_env_def)
  have s: "str_rpc_error daemon_down_env
             \<lparr>code = UNAVAILABLE, details = ''failed to connect to all addresses''\<rparr> =
           ''failed to connect to all addresses''"
    by (simp add: daemon_down_env_def)
  from rpc_error_reported_once_without_reply
         [OF h, of UNAVAILABLE "''failed to connect to all addresses''"] h a b s
  show ?thesis by (simp add: py_print_def)
qed

text \<open>
  C9. On a channel that was created, no \<open>RpcError\<close> leaves \<^verbatim>\<open>main\<close>: when the remote call
  raises one, \<^verbatim>\<open>main\<close> catches it, its last action is to print the diagnostic line that
  contains \<^verbatim>\<open>str\<close> of the error, and it returns normally.
\<close>

theorem rpc_error_caught_in_main:
  assumes "insecure_channel env ''localhost:9998'' = Inr ch"
  shows "(\<forall>e. fst (get_bsq_swap_offers_main env) \<noteq> Inl (RpcError e)) \<and>
         (\<forall>e. fst (send_bsq_main env) \<noteq> Inl (RpcError e)) \<and>
         (\<forall>e. get_bsq_swap_offers_with_call env (OffersStub ch) (GetBsqSwapOffersRequest ''SELL'')
                 [(''password'', ''xyz'')] = Inl (RpcError e) \<longrightarrow>
               fst (get_bsq_swap_offers_main env) = Inr () \<and>
               last (snd (get_bsq_swap_offers_main env)) =
                 Print (''gRPC API Exception: %s '' @ str_rpc_error env e @ [CHR 0x0A])) \<and>
         (\<forall>e. send_bsq_with_call env (WalletsStub ch)
                 (SendBsqRequest ''Bbcrt1q9elrmtxtzpwt25zq2pmeeu6qk8029w404ad0xn'' ''10.00'' ''10'')
                 [(''password'', ''xyz'')] = Inl (RpcError e) \<longrightarrow>
               fst (send_bsq_main env) = Inr () \<and>
               last (snd (send_bsq_main env)) =
                 Print (''gRPC API Exception: %s '' @ str_rpc_error env e @ [CHR 0x0A]))"
proof (intro conjI allI impI)
  fix e
  show "fst (get_bsq_swap_offers_main env) \<noteq> Inl (RpcError e)"
    using assms
    by (simp add: get_bsq_swap_offers_main_def Let_def split: sum.splits py_exception.splits)
  show "fst (send_bsq_main env) \<noteq> Inl (RpcError e)"
    using assms
    by (simp add: send_bsq_main_def Let_def split: sum.splits py_exception.splits)
next
  fix e
  assume a: "get_bsq_swap_offers_with_call env (OffersStub ch) (GetBsqSwapOffersRequest ''SELL'')
                 [(''password'', ''xyz'')] = Inl (RpcError e)"
  show "fst (get_bsq_swap_offers_main env) = Inr ()"
    by (simp add: offers_rpc_error [OF assms a])
  show "last (snd (get_bsq_swap_offers_main env)) =
                 Print (''gRPC API Exception: %s '' @ str_rpc_error env e @ [CHR 0x0A])"
    by (simp add: offers_rpc_error [OF assms a] py_print_def)
next
  fix e
  assume a: "send_bsq_with_call env (WalletsStub ch)
                 (SendBsqRequest ''Bbcrt1q9elrmtxtzpwt25zq2pmeeu6qk8029w404ad0xn'' ''10.00'' ''10'')
                 [(''password'', ''xyz'')] = Inl (RpcError e)"
  show "fst (send_bsq_main env) = Inr ()"
    by (simp add: send_rpc_error [OF assms a])
  show "last (snd (send_bsq_main env)) =
                 Print (''gRPC API Exception: %s '' @ str_rpc_error env e @ [CHR 0x0A])"
    by (simp add: send_rpc_error [OF assms a] py_print_def)
qed

theorem rpc_error_caught_in_main_witness:
  "insecure_channel daemon_down_env ''localhost:9998'' = Inr (Channel ''localhost:9998'') \<and>
   get_bsq_swap_offers_with_call daemon_down_env (OffersStub (Channel ''localhost:9998''))
     (GetBsqSwapOffersRequest ''SELL'') [(''password'', ''xyz'')] =
     Inl (RpcError \<lparr>code = UNAVAILABLE, details = ''failed to connect to all addresses''\<rparr>) \<and>
   send_bsq_with_call daemon_down_env (WalletsStub (Channel ''localhost:9998''))
     (SendBsqRequest ''Bbcrt1q9elrmtxtzpwt25zq2pmeeu6qk8029w404ad0xn'' ''10.00'' ''10'')
     [(''password'', ''xyz'')] =
     Inl (RpcError \<lparr>code = UNAVAILABLE, details = ''failed to connect to all addresses''\<rparr>) \<and>
   fst (get_bsq_swap_offers_main daemon_down_env) = Inr () \<and>
   fst (send_bsq_main daemon_down_env) = Inr () \<and>
   last (snd (get_bsq_swap_offers_main daemon_down_env)) =
     Print (''gRPC API Exception: %s failed to connect to all addresses'' @ [CHR 0x0A]) \<and>
   last (snd (send_bsq_main daemon_down_env)) =
     Print (''gRPC API Exception: %s failed to connect to all addresses'' @ [CHR 0x0A])"
proof -
  have h: "insecure_channel daemon_down_env ''localhost:9998'' = Inr (Channel ''localhost:9998'')"
    by (simp add: daemon_down_env_def)
  have a: "get_bsq_swap_offers_with_call daemon_down_env (OffersStub (Channel ''localhost:9998''))
     (GetBsqSwapOffersRequest ''SELL'') [(''password'', ''xyz'')] =
     Inl (RpcError \<lparr>code = UNAVAILABLE, details = ''failed to connect to all addresses''\<rparr>)"
    by (simp add: daemon_down_env_def)
  have b: "send_bsq_with_call daemon_down_env (WalletsStub (Channel ''localhost:9998''))
     (SendBsqRequest ''Bbcrt1q9elrmtxtzpwt25zq2pmeeu6qk8029w404ad0xn'' ''10.00'' ''10'')
     [(''password'', ''xyz'')] =
     Inl (RpcError \<lparr>code = UNAVAILABLE, details = ''failed to connect to all addresses''\<rparr>)"
    by (simp add: daemon_down_env_def)
  have s: "str_rpc_error daemon_down_env
             \<lparr>code = UNAVAILABLE, details = ''failed to connect to all addresses''\<rparr> =
           ''failed to connect to all addresses''"
    by (simp add: daemon_down_env_def)
  from rpc_error_caught_in_main [OF h] h a b s
  show ?thesis by simp
qed

subsection \<open>The success path\<close>

text \<open>
  The statement that the output is the reply's payload byte for byte, and that the reply
  is returned, fails. With a daemon whose payloads are the texts \<^verbatim>\<open>[]\<close> and \<^verbatim>\<open>tx\<close> and a
  \<^verbatim>\<open>str\<close> that renders a payload as itself, the scripts write \<^verbatim>\<open>Response: []\<close> and
  \<^verbatim>\<open>Response: tx\<close>, each with a newline, which are not the payloads; and \<^verbatim>\<open>main\<close> returns
  \<^verbatim>\<open>None\<close>, not the reply.
\<close>

theorem reply_not_passed_through_counterexample:
  "get_bsq_swap_offers_with_call answering_env (OffersStub (Channel ''localhost:9998''))
     (GetBsqSwapOffersRequest ''SELL'') [(''password'', ''xyz'')] =
     Inr (GetBsqSwapOffersReply ''[]'', GrpcCall) \<and>
   str_bsq_swap_offers answering_env ''[]'' = ''[]'' \<and>
   stdout (snd (get_bsq_swap_offers_main answering_env)) = ''Response: []'' @ [CHR 0x0A] \<and>
   stdout (snd (get_bsq_swap_offers_main answering_env)) \<noteq> ''[]'' \<and>
   fst (get_bsq_swap_offers_main answering_env) = Inr () \<and>
   send_bsq_with_call answering_env (WalletsStub (Channel ''localhost:9998''))
     (SendBsqRequest ''Bbcrt1q9elrmtxtzpwt25zq2pmeeu6qk8029w404ad0xn'' ''10.00'' ''10'')
     [(''password'', ''xyz'')] = Inr (SendBsqReply ''tx'', GrpcCall) \<and>
   str_tx_info answering_env ''tx'' = ''tx'' \<and>
   stdout (snd (send_bsq_main answering_env)) = ''Response: tx'' @ [CHR 0x0A] \<and>
   stdout (snd (send_bsq_main answering_env)) \<noteq> ''tx'' \<and>
   fst (send_bsq_main answering_env) = Inr ()"
  by (simp add: answering_env_def get_bsq_swap_offers_main_def send_bsq_main_def py_print_def)

text \<open>
  C4, as the code has it. On a channel that was created, when the remote call returns a
  reply, \<^verbatim>\<open>main\<close> returns \<^verbatim>\<open>None\<close> and prints exactly one line: the label \<^verbatim>\<open>Response: \<close>
  followed by \<^verbatim>\<open>str\<close> of the reply's payload field (\<open>bsq_swap_offers\<close> or \<open>tx_info\<close>), which
  reaches \<^verbatim>\<open>str\<close> as the server returned it, and a newline.
\<close>

theorem reply_printed_after_label:
  assumes "insecure_channel env ''localhost:9998'' = Inr ch"
  shows "(\<forall>reply c.
            get_bsq_swap_offers_with_call env (OffersStub ch) (GetBsqSwapOffersRequest ''SELL'')
              [(''password'', ''xyz'')] = Inr (reply, c) \<longrightarrow>
            fst (get_bsq_swap_offers_main env) = Inr () \<and>
            printed (snd (get_bsq_swap_offers_main env)) =
              [''Response: '' @ str_bsq_swap_offers env (bsq_swap_offers reply) @ [CHR 0x0A]]) \<and>
         (\<forall>reply c.
            send_bsq_with_call env (WalletsStub ch)
              (SendBsqRequest ''Bbcrt1q9elrmtxtzpwt25zq2pmeeu6qk8029w404ad0xn'' ''10.00'' ''10'')
              [(''password'', ''xyz'')] = Inr (reply, c) \<longrightarrow>
            fst (send_bsq_main env) = Inr () \<and>
            printed (snd (send_bsq_main env)) =
              [''Response: '' @ str_tx_info env (tx_info reply) @ [CHR 0x0A]])"
proof (intro conjI allI impI)
  fix reply c
  assume a: "get_bsq_swap_offers_with_call env (OffersStub ch) (GetBsqSwapOffersRequest ''SELL'')
              [(''password'', ''xyz'')] = Inr (reply, c)"
  show "fst (get_bsq_swap_offers_main env) = Inr ()"
    by (simp add: offers_returns [OF assms a])
  show "printed (snd (get_bsq_swap_offers_main env)) =
              [''Response: '' @ str_bsq_swap_offers env (bsq_swap_offers reply) @ [CHR 0x0A]]"
    by (simp add: offers_returns [OF assms a] py_print_def)
next
  fix reply c
  assume a: "send_bsq_with_call env (WalletsStub ch)
              (SendBsqRequest ''Bbcrt1q9elrmtxtzpwt25zq2pmeeu6qk8029w404ad0xn'' ''10.00'' ''10'')
              [(''password'', ''xyz'')] = Inr (reply, c)"
  show "fst (send_bsq_main env) = Inr ()"
    by (simp add: send_returns [OF assms a])
  show "printed (snd (send_bsq_main env)) =
              [''Response: '' @ str_tx_info env (tx_info reply) @ [CHR 0x0A]]"
    by (simp add: send_returns [OF assms a] py_print_def)
qed

theorem reply_printed_after_label_witness:
  "insecure_channel answering_env ''localhost:9998'' = Inr (Channel ''localhost:9998'') \<and>
   get_bsq_swap_offers_with_call answering_env (OffersStub (Channel ''localhost:9998''))
     (GetBsqSwapOffersRequest ''SELL'') [(''password'', ''xyz'')] =
     Inr (GetBsqSwapOffersReply ''[]'', GrpcCall) \<and>
   send_bsq_with_call answering_env (WalletsStub (Channel ''localhost:9998''))
     (SendBsqRequest ''Bbcrt1q9elrmtxtzpwt25zq2pmeeu6qk8029w404ad0xn'' ''10.00'' ''10'')
     [(''password'', ''xyz'')] = Inr (SendBsqReply ''tx'', GrpcCall) \<and>
   fst (get_bsq_swap_offers_main answering_env) = Inr () \<and>
   printed (snd (get_bsq_swap_offers_main answering_env)) = [''Response: []'' @ [CHR 0x0A]] \<and>
   fst (send_bsq_main answering_env) = Inr () \<and>
   printed (snd (send_bsq_main answering_env)) = [''Response: tx'' @ [CHR 0x0A]]"
proof -
  have h: "insecure_channel answering_env ''localhost:9998'' = Inr (Channel ''localhost:9998'')"
    by (simp add: answering_env_def)
  have a: "get_bsq_swap_offers_with_call answering_env (OffersStub (Channel ''localhost:9998''))
     (GetBsqSwapOffersRequest ''SELL'') [(''password'', ''xyz'')] =
     Inr (GetBsqSwapOffersReply ''[]'', GrpcCall)"
    by (simp add: answering_env_def)
  have b: "send_bsq_with_call answering_env (WalletsStub (Channel ''localhost:9998''))
     (SendBsqRequest ''Bbcrt1q9elrmtxtzpwt25zq2pmeeu6qk8029w404ad0xn'' ''10.00'' ''10'')
     [(''password'', ''xyz'')] = Inr (SendBsqReply ''tx'', GrpcCall)"
    by (simp add: answering_env_def)
  have s: "str_bsq_swap_offers answering_env ''[]'' = ''[]''"
          "str_tx_info answering_env ''tx'' = ''tx''"
    by (simp_all add: answering_env_def)
  from reply_printed_after_label [OF h] h a b s
  show ?thesis by simp
qed

subsection \<open>Channel creation\<close>

text \<open>
  The statement that an unreachable endpoint makes the connection step fail with
  \<open>ConnectionError\<close> before any call fails. When no daemon listens and the channel is
  created without contacting the target, both scripts do attempt their remote call, the
  failure arrives as an \<open>RpcError\<close>, and \<^verbatim>\<open>main\<close> returns normally.
\<close>

theorem unreachable_endpoint_call_attempted_counterexample:
  "insecure_channel daemon_down_env ''localhost:9998'' = Inr (Channel ''localhost:9998'') \<and>
   fst (get_bsq_swap_offers_main daemon_down_env) = Inr () \<and>
   remote_calls (snd (get_bsq_swap_offers_main daemon_down_env)) =
     [(OffersStub (Channel ''localhost:9998''), GetBsqSwapOffers,
       GetBsqSwapOffersRequest ''SELL'', [(''password'', ''xyz'')])] \<and>
   fst (send_bsq_main daemon_down_env) = Inr () \<and>
   remote_calls (snd (send_bsq_main daemon_down_env)) =
     [(WalletsStub (Channel ''localhost:9998''), SendBsq,
       SendBsqRequest ''Bbcrt1q9elrmtxtzpwt25zq2pmeeu6qk8029w404ad0xn'' ''10.00'' ''10'',
       [(''password'', ''xyz'')])]"
  by (simp add: daemon_down_env_def get_bsq_swap_offers_main_def send_bsq_main_def)

text \<open>
  C5, as the code has it. The channel is created outside the \<^verbatim>\<open>try\<close> block. When
  creating it raises an exception, \<open>ConnectionError\<close> or any other, that exception leaves
  \<^verbatim>\<open>main\<close>, no remote call is attempted and nothing is printed.
\<close>

theorem channel_exception_propagates_no_call:
  assumes "insecure_channel env ''localhost:9998'' = Inl exn"
  shows "fst (get_bsq_swap_offers_main env) = Inl exn \<and>
         remote_calls (snd (get_bsq_swap_offers_main env)) = [] \<and>
         printed (snd (get_bsq_swap_offers_main env)) = [] \<and>
         fst (send_bsq_main env) = Inl exn \<and>
         remote_calls (snd (send_bsq_main env)) = [] \<and>
         printed (snd (send_bsq_main env)) = []"
  by (simp add: offers_channel_raises [OF assms] send_channel_raises [OF assms])

theorem channel_exception_propagates_no_call_witness:
  "insecure_channel refusing_env ''localhost:9998'' = Inl ConnectionError \<and>
   fst (get_bsq_swap_offers_main refusing_env) = Inl ConnectionError \<and>
   remote_calls (snd (get_bsq_swap_offers_main refusing_env)) = [] \<and>
   fst (send_bsq_main refusing_env) = Inl ConnectionError \<and>
   remote_calls (snd (send_bsq_main refusing_env)) = []"
proof -
  have h: "insecure_channel refusing_env ''localhost:9998'' = Inl ConnectionError"
    by (simp add: refusing_env_def)
  from channel_exception_propagates_no_call [OF h] h show ?thesis by simp
qed

subsection \<open>One call for each run\<close>

text \<open>
  C6. Each run issues at most one remote call. When the call fails, with an \<open>RpcError\<close>
  or with any other exception, the list of calls issued holds that one call and no
  second one: a failed call is not issued again. The failure is not swallowed: when the
  call raises \<open>RpcError\<close> with a status code \<open>c\<close> and a message \<open>m\<close>, the whole run is the
  channel creation, the one call, and the one line that reports that very error
  (\<^verbatim>\<open>gRPC API Exception: %s\<close>, a space, \<^verbatim>\<open>str\<close> of the error), after which \<^verbatim>\<open>main\<close> returns;
  an exception of another class leaves \<^verbatim>\<open>main\<close> unchanged, with nothing printed.
\<close>

theorem failed_call_reported_never_reissued:
  "length (remote_calls (snd (get_bsq_swap_offers_main env))) \<le> 1 \<and>
   length (remote_calls (snd (send_bsq_main env))) \<le> 1 \<and>
   (\<forall>ch exn.
      insecure_channel env ''localhost:9998'' = Inr ch \<and>
      get_bsq_swap_offers_with_call env (OffersStub ch) (GetBsqSwapOffersRequest ''SELL'')
        [(''password'', ''xyz'')] = Inl exn \<longrightarrow>
      remote_calls (snd (get_bsq_swap_offers_main env)) =
        [(OffersStub ch, GetBsqSwapOffers, GetBsqSwapOffersRequest ''SELL'',
          [(''password'', ''xyz'')])]) \<and>
   (\<forall>ch exn.
      insecure_channel env ''localhost:9998'' = Inr ch \<and>
      send_bsq_with_call env (WalletsStub ch)
        (SendBsqRequest ''Bbcrt1q9elrmtxtzpwt25zq2pmeeu6qk8029w404ad0xn'' ''10.00'' ''10'')
        [(''password'', ''xyz'')] = Inl exn \<longrightarrow>
      remote_calls (snd (send_bsq_main env)) =
        [(WalletsStub ch, SendBsq,
          SendBsqRequest ''Bbcrt1q9elrmtxtzpwt25zq2pmeeu6qk8029w404ad0xn'' ''10.00'' ''10'',
          [(''password'', ''xyz'')])]) \<and>
   (\<forall>ch c m.
      insecure_channel env ''localhost:9998'' = Inr ch \<and>
      get_bsq_swap_offers_with_call env (OffersStub ch) (GetBsqSwapOffersRequest ''SELL'')
        [(''password'', ''xyz'')] = Inl (RpcError \<lparr>code = c, details = m\<rparr>) \<longrightarrow>
      get_bsq_swap_offers_main env =
        (Inr (),
         [InsecureChannel ''localhost:9998'',
          UnaryWithCall (OffersStub ch) GetBsqSwapOffers (GetBsqSwapOffersRequest ''SELL'')
            [(''password'', ''xyz'')],
          Print (''gRPC API Exception: %s '' @
                 str_rpc_error env \<lparr>code = c, details = m\<rparr> @ [CHR 0x0A])])) \<and>
   (\<forall>ch c m.
      insecure_channel env ''localhost:9998'' = Inr ch \<and>
      send_bsq_with_call env (WalletsStub ch)
        (SendBsqRequest ''Bbcrt1q9elrmtxtzpwt25zq2pmeeu6qk8029w404ad0xn'' ''10.00'' ''10'')
        [(''password'', ''xyz'')] = Inl (RpcError \<lparr>code = c, details = m\<rparr>) \<longrightarrow>
      send_bsq_main env =
        (Inr (),
         [InsecureChannel ''localhost:9998'',
          UnaryWithCall (WalletsStub ch) SendBsq
            (SendBsqRequest ''Bbcrt1q9elrmtxtzpwt25zq2pmeeu6qk8029w404ad0xn'' ''10.00'' ''10'')
            [(''password'', ''xyz'')],
          Print (''gRPC API Exception: %s '' @
                 str_rpc_error env \<lparr>code = c, details = m\<rparr> @ [CHR 0x0A])])) \<and>
   (\<forall>ch exn.
      insecure_channel env ''localhost:9998'' = Inr ch \<and>
      get_bsq_swap_offers_with_call env (OffersStub ch) (GetBsqSwapOffersRequest ''SELL'')
        [(''password'', ''xyz'')] = Inl exn \<and>
      (\<forall>e. exn \<noteq> RpcError e) \<longrightarrow>
      fst (get_bsq_swap_offers_main env) = Inl exn \<and>
      printed (snd (get_bsq_swap_offers_main env)) = []) \<and>
   (\<forall>ch exn.
      insecure_channel env ''localhost:9998'' = Inr ch \<and>
      send_bsq_with_call env (WalletsStub ch)
        (SendBsqRequest ''Bbcrt1q9elrmtxtzpwt25zq2pmeeu6qk8029w404ad0xn'' ''10.00'' ''10'')
        [(''password'', ''xyz'')] = Inl exn \<and>
      (\<forall>e. exn \<noteq> RpcError e) \<longrightarrow>
      fst (send_bsq_main env) = Inl exn \<and>
      printed (snd (send_bsq_main env)) = [])"
proof (intro conjI allI impI)
  show "length (remote_calls (snd (get_bsq_swap_offers_main env))) \<le> 1"
    by (simp add: get_bsq_swap_offers_main_def Let_def split: sum.splits py_exception.splits)
  show "length (remote_calls (snd (send_bsq_main env))) \<le> 1"
    by (simp add: send_bsq_main_def Let_def split: sum.splits py_exception.splits)
next
  fix ch exn
  assume "insecure_channel env ''localhost:9998'' = Inr ch \<and>
      get_bsq_swap_offers_with_call env (OffersStub ch) (GetBsqSwapOffersRequest ''SELL'')
        [(''password'', ''xyz'')] = Inl exn"
  then show "remote_calls (snd (get_bsq_swap_offers_main env)) =
        [(OffersStub ch, GetBsqSwapOffers, GetBsqSwapOffersRequest ''SELL'',
          [(''password'', ''xyz'')])]"
    by (simp add: get_bsq_swap_offers_main_def Let_def split: py_exception.splits)
next
  fix ch exn
  assume "insecure_channel env ''localhost:9998'' = Inr ch \<and>
      send_bsq_with_call env (WalletsStub ch)
        (SendBsqRequest ''Bbcrt1q9elrmtxtzpwt25zq2pmeeu6qk8029w404ad0xn'' ''10.00'' ''10'')
        [(''password'', ''xyz'')] = Inl exn"
  then show "remote_calls (snd (send_bsq_main env)) =
        [(WalletsStub ch, SendBsq,
          SendBsqRequest ''Bbcrt1q9elrmtxtzpwt25zq2pmeeu6qk8029w404ad0xn'' ''10.00'' ''10'',
          [(''password'', ''xyz'')])]"
    by (simp add: send_bsq_main_def Let_def split: py_exception.splits)
next
  fix ch c m
  assume a: "insecure_channel env ''localhost:9998'' = Inr ch \<and>
      get_bsq_swap_offers_with_call env (OffersStub ch) (GetBsqSwapOffersRequest ''SELL'')
        [(''password'', ''xyz'')] = Inl (RpcError \<lparr>code = c, details = m\<rparr>)"
  show "get_bsq_swap_offers_main env =
        (Inr (),
         [InsecureChannel ''localhost:9998'',
          UnaryWithCall (OffersStub ch) GetBsqSwapOffers (GetBsqSwapOffersRequest ''SELL'')
            [(''password'', ''xyz'')],
          Print (''gRPC API Exception: %s '' @
                 str_rpc_error env \<lparr>code = c, details = m\<rparr> @ [CHR 0x0A])])"
    using offers_rpc_error [OF conjunct1 [OF a] conjunct2 [OF a]]
    by (simp add: py_print_def)
next
  fix ch c m
  assume a: "insecure_channel env ''localhost:9998'' = Inr ch \<and>
      send_bsq_with_call env (WalletsStub ch)
        (SendBsqRequest ''Bbcrt1q9elrmtxtzpwt25zq2pmeeu6qk8029w404ad0xn'' ''10.00'' ''10'')
        [(''password'', ''xyz'')] = Inl (RpcError \<lparr>code = c, details = m\<rparr>)"
  show "send_bsq_main env =
        (Inr (),
         [InsecureChannel ''localhost:9998'',
          UnaryWithCall (WalletsStub ch) SendBsq
            (SendBsqRequest ''Bbcrt1q9elrmtxtzpwt25zq2pmeeu6qk8029w404ad0xn'' ''10.00'' ''10'')
            [(''password'', ''xyz'')],
          Print (''gRPC API Exception: %s '' @
                 str_rpc_error env \<lparr>code = c, details = m\<rparr> @ [CHR 0x0A])])"
    using send_rpc_error [OF conjunct1 [OF a] conjunct2 [OF a]]
    by (simp add: py_print_def)
next
  fix ch exn
  assume a: "insecure_channel env ''localhost:9998'' = Inr ch \<and>
      get_bsq_swap_offers_with_call env (OffersStub ch) (GetBsqSwapOffersRequest ''SELL'')
        [(''password'', ''xyz'')] = Inl exn \<and>
      (\<forall>e. exn \<noteq> RpcError e)"
  then have m: "get_bsq_swap_offers_main env =
     (Inl exn,
      [InsecureChannel ''localhost:9998'',
       UnaryWithCall (OffersStub ch) GetBsqSwapOffers (GetBsqSwapOffersRequest ''SELL'')
         [(''password'', ''xyz'')]])"
    by (intro offers_other_exception) simp_all
  show "fst (get_bsq_swap_offers_main env) = Inl exn"
    and "printed (snd (get_bsq_swap_offers_main env)) = []"
    by (simp_all add: m)
next
  fix ch exn
  assume a: "insecure_channel env ''localhost:9998'' = Inr ch \<and>
      send_bsq_with_call env (WalletsStub ch)
        (SendBsqRequest ''Bbcrt1q9elrmtxtzpwt25zq2pmeeu6qk8029w404ad0xn'' ''10.00'' ''10'')
        [(''password'', ''xyz'')] = Inl exn \<and>
      (\<forall>e. exn \<noteq> RpcError e)"
  then have m: "send_bsq_main env =
     (Inl exn,
      [InsecureChannel ''localhost:9998'',
       UnaryWithCall (WalletsStub ch) SendBsq
         (SendBsqRequest ''Bbcrt1q9elrmtxtzpwt25zq2pmeeu6qk8029w404ad0xn'' ''10.00'' ''10'')
         [(''password'', ''xyz'')]])"
    by (intro send_other_exception) simp_all
  show "fst (send_bsq_main env) = Inl exn"
    and "printed (snd (send_bsq_main env)) = []"
    by (simp_all add: m)
qed

theorem failed_call_reported_never_reissued_witness:
  "insecure_channel daemon_down_env ''localhost:9998'' = Inr (Channel ''localhost:9998'') \<and>
   get_bsq_swap_offers_with_call daemon_down_env (OffersStub (Channel ''localhost:9998''))
     (GetBsqSwapOffersRequest ''SELL'') [(''password'', ''xyz'')] =
     Inl (RpcError \<lparr>code = UNAVAILABLE, details = ''failed to connect to all addresses''\<rparr>) \<and>
   send_bsq_with_call daemon_down_env (WalletsStub (Channel ''localhost:9998''))
     (SendBsqRequest ''Bbcrt1q9elrmtxtzpwt25zq2pmeeu6qk8029w404ad0xn'' ''10.00'' ''10'')
     [(''password'', ''xyz'')] =
     Inl (RpcError \<lparr>code = UNAVAILABLE, details = ''failed to connect to all addresses''\<rparr>) \<and>
   length (remote_calls (snd (get_bsq_swap_offers_main daemon_down_env))) = 1 \<and>
   length (remote_calls (snd (send_bsq_main daemon_down_env))) = 1 \<and>
   get_bsq_swap_offers_main daemon_down_env =
     (Inr (),
      [InsecureChannel ''localhost:9998'',
       UnaryWithCall (OffersStub (Channel ''localhost:9998'')) GetBsqSwapOffers
         (GetBsqSwapOffersRequest ''SELL'') [(''password'', ''xyz'')],
       Print (''gRPC API Exception: %s failed to connect to all addresses'' @ [CHR 0x0A])]) \<and>
   send_bsq_main daemon_down_env =
     (Inr (),
      [InsecureChannel ''localhost:9998'',
       UnaryWithCall (WalletsStub (Channel ''localhost:9998'')) SendBsq
         (SendBsqRequest ''Bbcrt1q9elrmtxtzpwt25zq2pmeeu6qk8029w404ad0xn'' ''10.00'' ''10'')
         [(''password'', ''xyz'')],
       Print (''gRPC API Exception: %s failed to connect to all addresses'' @ [CHR 0x0A])]) \<and>
   insecure_channel value_error_env ''localhost:9998'' = Inr (Channel ''localhost:9998'') \<and>
   get_bsq_swap_offers_with_call value_error_env (OffersStub (Channel ''localhost:9998''))
     (GetBsqSwapOffersRequest ''SELL'') [(''password'', ''xyz'')] =
     Inl (OtherException ''ValueError'') \<and>
   send_bsq_with_call value_error_env (WalletsStub (Channel ''localhost:9998''))
     (SendBsqRequest ''Bbcrt1q9elrmtxtzpwt25zq2pmeeu6qk8029w404ad0xn'' ''10.00'' ''10'')
     [(''password'', ''xyz'')] = Inl (OtherException ''ValueError'') \<and>
   fst (get_bsq_swap_offers_main value_error_env) = Inl (OtherException ''ValueError'') \<and>
   fst (send_bsq_main value_error_env) = Inl (OtherException ''ValueError'') \<and>
   length (remote_calls (snd (get_bsq_swap_offers_main value_error_env))) = 1 \<and>
   length (remote_calls (snd (send_bsq_main value_error_env))) = 1"
proof -
  have h: "insecure_channel daemon_down_env ''localhost:9998'' = Inr (Channel ''localhost:9998'')"
    by (simp add: daemon_down_env_def)
  have a: "get_bsq_swap_offers_with_call daemon_down_env (OffersStub (Channel ''localhost:9998''))
     (GetBsqSwapOffersRequest ''SELL'') [(''password'', ''xyz'')] =
     Inl (RpcError \<lparr>code = UNAVAILABLE, details = ''failed to connect to all addresses''\<rparr>)"
    by (simp add: daemon_down_env_def)
  have b: "send_bsq_with_call daemon_down_env (WalletsStub (Channel ''localhost:9998''))
     (SendBsqRequest ''Bbcrt1q9elrmtxtzpwt25zq2pmeeu6qk8029w404ad0xn'' ''10.00'' ''10'')
     [(''password'', ''xyz'')] =
     Inl (RpcError \<lparr>code = UNAVAILABLE, details = ''failed to connect to all addresses''\<rparr>)"
    by (simp add: daemon_down_env_def)
  have s: "str_rpc_error daemon_down_env
             \<lparr>code = UNAVAILABLE, details = ''failed to connect to all addresses''\<rparr> =
           ''failed to connect to all addresses''"
    by (simp add: daemon_down_env_def)
  have h': "insecure_channel value_error_env ''localhost:9998'' = Inr (Channel ''localhost:9998'')"
    by (simp add: value_error_env_def)
  have a': "get_bsq_swap_offers_with_call value_error_env (OffersStub (Channel ''localhost:9998''))
     (GetBsqSwapOffersRequest ''SELL'') [(''password'', ''xyz'')] =
     Inl (OtherException ''ValueError'')"
    by (simp add: value_error_env_def)
  have b': "send_bsq_with_call value_error_env (WalletsStub (Channel ''localhost:9998''))
     (SendBsqRequest ''Bbcrt1q9elrmtxtzpwt25zq2pmeeu6qk8029w404ad0xn'' ''10.00'' ''10'')
     [(''password'', ''xyz'')] = Inl (OtherException ''ValueError'')"
    by (simp add: value_error_env_def)
  have d: "get_bsq_swap_offers_main daemon_down_env =
     (Inr (),
      [InsecureChannel ''localhost:9998'',
       UnaryWithCall (OffersStub (Channel ''localhost:9998'')) GetBsqSwapOffers
         (GetBsqSwapOffersRequest ''SELL'') [(''password'', ''xyz'')],
       Print (''gRPC API Exception: %s failed to connect to all addresses'' @ [CHR 0x0A])])"
      "send_bsq_main daemon_down_env =
     (Inr (),
      [InsecureChannel ''localhost:9998'',
       UnaryWithCall (WalletsStub (Channel ''localhost:9998'')) SendBsq
         (SendBsqRequest ''Bbcrt1q9elrmtxtzpwt25zq2pmeeu6qk8029w404ad0xn'' ''10.00'' ''10'')
         [(''password'', ''xyz'')],
       Print (''gRPC API Exception: %s failed to connect to all addresses'' @ [CHR 0x0A])])"
    using failed_call_reported_never_reissued [of daemon_down_env] h a b s by simp_all
  have v: "fst (get_bsq_swap_offers_main value_error_env) = Inl (OtherException ''ValueError'')"
          "fst (send_bsq_main value_error_env) = Inl (OtherException ''ValueError'')"
          "length (remote_calls (snd (get_bsq_swap_offers_main value_error_env))) = 1"
          "length (remote_calls (snd (send_bsq_main value_error_env))) = 1"
    using failed_call_reported_never_reissued [of value_error_env] h' a' b' by simp_all
  from h a b h' a' b' d v show ?thesis by simp
qed

subsection \<open>The credential\<close>

text \<open>
  C7. Every remote call a script issues carries the metadata list with the one pair
  \<^verbatim>\<open>password\<close> and the credential \<^verbatim>\<open>xyz\<close>; no call is issued without it. The credential
  is not stored: every effect of a run is the creation of the channel to
  \<^verbatim>\<open>localhost:9998\<close>, the call with that metadata, or a line printed that begins with
  \<^verbatim>\<open>Response: \<close> or with \<^verbatim>\<open>gRPC API Exception: %s \<close> and continues with what the server sent.
\<close>

theorem password_metadata_on_every_call:
  "(\<forall>(s, m, r, md) \<in> set (remote_calls (snd (get_bsq_swap_offers_main env))).
      md = [(''password'', ''xyz'')]) \<and>
   (\<forall>(s, m, r, md) \<in> set (remote_calls (snd (send_bsq_main env))).
      md = [(''password'', ''xyz'')]) \<and>
   (\<forall>ev \<in> set (snd (get_bsq_swap_offers_main env)).
      case ev of
        InsecureChannel t \<Rightarrow> t = ''localhost:9998''
      | UnaryWithCall s m r md \<Rightarrow> md = [(''password'', ''xyz'')]
      | ChannelClose ch \<Rightarrow> False
      | Print txt \<Rightarrow>
          take 10 txt = ''Response: '' \<or> take 23 txt = ''gRPC API Exception: %s '') \<and>
   (\<forall>ev \<in> set (snd (send_bsq_main env)).
      case ev of
        InsecureChannel t \<Rightarrow> t = ''localhost:9998''
      | UnaryWithCall s m r md \<Rightarrow> md = [(''password'', ''xyz'')]
      | ChannelClose ch \<Rightarrow> False
      | Print txt \<Rightarrow>
          take 10 txt = ''Response: '' \<or> take 23 txt = ''gRPC API Exception: %s '')"
proof (intro conjI)
  show "\<forall>(s, m, r, md) \<in> set (remote_calls (snd (get_bsq_swap_offers_main env))).
      md = [(''password'', ''xyz'')]"
    using offers_effects_shape [of env] by auto
  show "\<forall>(s, m, r, md) \<in> set (remote_calls (snd (send_bsq_main env))).
      md = [(''password'', ''xyz'')]"
    using send_effects_shape [of env] by auto
  show "\<forall>ev \<in> set (snd (get_bsq_swap_offers_main env)).
      case ev of
        InsecureChannel t \<Rightarrow> t = ''localhost:9998''
      | UnaryWithCall s m r md \<Rightarrow> md = [(''password'', ''xyz'')]
      | ChannelClose ch \<Rightarrow> False
      | Print txt \<Rightarrow>
          take 10 txt = ''Response: '' \<or> take 23 txt = ''gRPC API Exception: %s ''"
    using offers_effects_shape [of env] by (auto simp add: py_print_def)
  show "\<forall>ev \<in> set (snd (send_bsq_main env)).
      case ev of
        InsecureChannel t \<Rightarrow> t = ''localhost:9998''
      | UnaryWithCall s m r md \<Rightarrow> md = [(''password'', ''xyz'')]
      | ChannelClose ch \<Rightarrow> False
      | Print txt \<Rightarrow>
          take 10 txt = ''Response: '' \<or> take 23 txt = ''gRPC API Exception: %s ''"
    using send_effects_shape [of env] by (auto simp add: py_print_def)
qed

theorem password_metadata_on_every_call_witness:
  "remote_calls (snd (get_bsq_swap_offers_main answering_env)) =
     [(OffersStub (Channel ''localhost:9998''), GetBsqSwapOffers,
       GetBsqSwapOffersRequest ''SELL'', [(''password'', ''xyz'')])] \<and>
   remote_calls (snd (send_bsq_main answering_env)) =
     [(WalletsStub (Channel ''localhost:9998''), SendBsq,
       SendBsqRequest ''Bbcrt1q9elrmtxtzpwt25zq2pmeeu6qk8029w404ad0xn'' ''10.00'' ''10'',
       [(''password'', ''xyz'')])] \<and>
   snd (send_bsq_main answering_env) =
     [InsecureChannel ''localhost:9998'',
      UnaryWithCall (WalletsStub (Channel ''localhost:9998'')) SendBsq
        (SendBsqRequest ''Bbcrt1q9elrmtxtzpwt25zq2pmeeu6qk8029w404ad0xn'' ''10.00'' ''10'')
        [(''password'', ''xyz'')],
      Print (''Response: tx'' @ [CHR 0x0A])]"
  using password_metadata_on_every_call [of answering_env]
  by (simp add: answering_env_def get_bsq_swap_offers_main_def send_bsq_main_def py_print_def)

subsection \<open>The channel\<close>

text \<open>
  The statement that the channel is released on every exit path fails. On the path where
  the remote call raises \<open>RpcError\<close>, both scripts return with one channel created and
  none closed.
\<close>

theorem channel_not_closed_counterexample:
  "fst (get_bsq_swap_offers_main daemon_down_env) = Inr () \<and>
   channels_created (snd (get_bsq_swap_offers_main daemon_down_env)) = [''localhost:9998''] \<and>
   channels_closed (snd (get_bsq_swap_offers_main daemon_down_env)) = [] \<and>
   fst (send_bsq_main daemon_down_env) = Inr () \<and>
   channels_created (snd (send_bsq_main daemon_down_env)) = [''localhost:9998''] \<and>
   channels_closed (snd (send_bsq_main daemon_down_env)) = []"
  by (simp add: daemon_down_env_def get_bsq_swap_offers_main_def send_bsq_main_def)

text \<open>
  C8, as the code has it. Every run creates exactly one channel, to \<^verbatim>\<open>localhost:9998\<close>,
  and never closes it itself, on no exit path: the scripts have no \<^verbatim>\<open>with\<close> block and no
  call of \<^verbatim>\<open>close\<close>, and the channel is left to the interpreter when \<^verbatim>\<open>main\<close> ends.
\<close>

theorem one_channel_created_never_closed:
  "channels_created (snd (get_bsq_swap_offers_main env)) = [''localhost:9998''] \<and>
   channels_closed (snd (get_bsq_swap_offers_main env)) = [] \<and>
   channels_created (snd (send_bsq_main env)) = [''localhost:9998''] \<and>
   channels_closed (snd (send_bsq_main env)) = []"
proof (intro conjI)
  show "channels_created (snd (get_bsq_swap_offers_main env)) = [''localhost:9998'']"
    by (simp add: get_bsq_swap_offers_main_def Let_def split: sum.splits py_exception.splits)
  show "channels_closed (snd (get_bsq_swap_offers_main env)) = []"
    by (simp add: get_bsq_swap_offers_main_def Let_def split: sum.splits py_exception.splits)
  show "channels_created (snd (send_bsq_main env)) = [''localhost:9998'']"
    by (simp add: send_bsq_main_def Let_def split: sum.splits py_exception.splits)
  show "channels_closed (snd (send_bsq_main env)) = []"
    by (simp add: send_bsq_main_def Let_def split: sum.splits py_exception.splits)
qed

subsection \<open>Determinism of what is sent\<close>

text \<open>
  C10. What a script sends does not depend on the run. For any two environments the
  channel is created to the same target \<^verbatim>\<open>localhost:9998\<close>, and any call issued in one run
  and any call issued in the other have the same method, the same request fields and the
  same metadata \<^verbatim>\<open>password\<close>, \<^verbatim>\<open>xyz\<close>: all of them are literals of the script, and nothing
  is read from the user.
\<close>

theorem requests_same_in_every_run:
  "channels_created (snd (get_bsq_swap_offers_main env1)) = [''localhost:9998''] \<and>
   channels_created (snd (get_bsq_swap_offers_main env2)) = [''localhost:9998''] \<and>
   channels_created (snd (send_bsq_main env1)) = [''localhost:9998''] \<and>
   channels_created (snd (send_bsq_main env2)) = [''localhost:9998''] \<and>
   (\<forall>(s1, c1) \<in> set (remote_calls (snd (get_bsq_swap_offers_main env1))).
    \<forall>(s2, c2) \<in> set (remote_calls (snd (get_bsq_swap_offers_main env2))).
      c1 = c2 \<and>
      c1 = (GetBsqSwapOffers, GetBsqSwapOffersRequest ''SELL'', [(''password'', ''xyz'')])) \<and>
   (\<forall>(s1, c1) \<in> set (remote_calls (snd (send_bsq_main env1))).
    \<forall>(s2, c2) \<in> set (remote_calls (snd (send_bsq_main env2))).
      c1 = c2 \<and>
      c1 = (SendBsq,
            SendBsqRequest ''Bbcrt1q9elrmtxtzpwt25zq2pmeeu6qk8029w404ad0xn'' ''10.00'' ''10'',
            [(''password'', ''xyz'')]))"
proof (intro conjI)
  show "channels_created (snd (get_bsq_swap_offers_main env1)) = [''localhost:9998'']"
    by (simp add: get_bsq_swap_offers_main_def Let_def split: sum.splits py_exception.splits)
  show "channels_created (snd (get_bsq_swap_offers_main env2)) = [''localhost:9998'']"
    by (simp add: get_bsq_swap_offers_main_def Let_def split: sum.splits py_exception.splits)
  show "channels_created (snd (send_bsq_main env1)) = [''localhost:9998'']"
    by (simp add: send_bsq_main_def Let_def split: sum.splits py_exception.splits)
  show "channels_created (snd (send_bsq_main env2)) = [''localhost:9998'']"
    by (simp add: send_bsq_main_def Let_def split: sum.splits py_exception.splits)
  show "\<forall>(s1, c1) \<in> set (remote_calls (snd (get_bsq_swap_offers_main env1))).
    \<forall>(s2, c2) \<in> set (remote_calls (snd (get_bsq_swap_offers_main env2))).
      c1 = c2 \<and>
      c1 = (GetBsqSwapOffers, GetBsqSwapOffersRequest ''SELL'', [(''password'', ''xyz'')])"
    using offers_effects_shape [of env1] offers_effects_shape [of env2] by auto
  show "\<forall>(s1, c1) \<in> set (remote_calls (snd (send_bsq_main env1))).
    \<forall>(s2, c2) \<in> set (remote_calls (snd (send_bsq_main env2))).
      c1 = c2 \<and>
      c1 = (SendBsq,
            SendBsqRequest ''Bbcrt1q9elrmtxtzpwt25zq2pmeeu6qk8029w404ad0xn'' ''10.00'' ''10'',
            [(''password'', ''xyz'')])"
    using send_effects_shape [of env1] send_effects_shape [of env2] by auto
qed

theorem requests_same_in_every_run_witness:
  "remote_calls (snd (get_bsq_swap_offers_main answering_env)) =
     [(OffersStub (Channel ''localhost:9998''), GetBsqSwapOffers,
       GetBsqSwapOffersRequest ''SELL'', [(''password'', ''xyz'')])] \<and>
   remote_calls (snd (get_bsq_swap_offers_main daemon_down_env)) =
     [(OffersStub (Channel ''localhost:9998''), GetBsqSwapOffers,
       GetBsqSwapOffersRequest ''SELL'', [(''password'', ''xyz'')])] \<and>
   remote_calls (snd (send_bsq_main answering_env)) =
     [(WalletsStub (Channel ''localhost:9998''), SendBsq,
       SendBsqRequest ''Bbcrt1q9elrmtxtzpwt25zq2pmeeu6qk8029w404ad0xn'' ''10.00'' ''10'',
       [(''password'', ''xyz'')])] \<and>
   remote_calls (snd (send_bsq_main daemon_down_env)) =
     [(WalletsStub (Channel ''localhost:9998''), SendBsq,
       SendBsqRequest ''Bbcrt1q9elrmtxtzpwt25zq2pmeeu6qk8029w404ad0xn'' ''10.00'' ''10'',
       [(''password'', ''xyz'')])] \<and>
   channels_created (snd (get_bsq_swap_offers_main answering_env)) =
     channels_created (snd (get_bsq_swap_offers_main daemon_down_env)) \<and>
   channels_created (snd (send_bsq_main answering_env)) =
     channels_created (snd (send_bsq_main daemon_down_env))"
  using requests_same_in_every_run [of answering_env daemon_down_env]
  by (simp add: answering_env_def daemon_down_env_def get_bsq_swap_offers_main_def
      send_bsq_main_def)

end
